theory Spec2Isabelle
  imports Main "HOL-Library.Sublist" "HOL-Library.List_Lexorder" "HOL-Library.Char_ord"
begin

section \<open>Messages and the feed of ChatWindow.tsx\<close>

text \<open>
  The value of a time field of a record (\<^verbatim>\<open>created_at\<close>, \<^verbatim>\<open>timestamp\<close>), as far as the code
  looks at it:
  \<^item> \<open>Absent\<close>: \<^verbatim>\<open>undefined\<close>, \<^verbatim>\<open>null\<close> or the empty string; it is falsy, and its string is
    not a date;
  \<^item> \<open>Text r\<close>: a non-empty string, \<open>r\<close> being what \<^verbatim>\<open>Date.parse\<close> gives for it, in
    milliseconds (\<open>None\<close> is NaN);
  \<^item> \<open>Number n r\<close>: the JSON number \<open>n\<close>, an integer, \<open>r\<close> being what \<^verbatim>\<open>Date.parse\<close> gives for
    its decimal string;
  \<^item> \<open>DateObj d\<close>: a \<^verbatim>\<open>Date\<close> object, \<open>d\<close> being its time value (\<open>None\<close> is an invalid
    date). Only the hook makes these: JSON has none.
\<close>

datatype timeval = Absent | Text "int option" | Number int "int option" | DateObj "int option"

text \<open>
  The records of the feed, as ChatWindow.tsx reads them: \<open>id_str\<close> is \<^verbatim>\<open>String(x.id)\<close>.
  The type \<^verbatim>\<open>Message\<close> of useWebSocket.ts has the same fields; a message received on
  the socket keeps every field of its payload (\<^verbatim>\<open>{...data, ...}\<close>), so \<open>created_at\<close>
  is there too.
\<close>

record message =
  id_str :: string
  content :: string
  sender :: string
  timestamp :: timeval
  chatId :: string
  created_at :: timeval

text \<open>\<^verbatim>\<open>v\<close> is truthy.\<close>

fun truthy :: "timeval \<Rightarrow> bool" where
  "truthy Absent = False"
| "truthy (Text r) = True"
| "truthy (Number n r) = (n \<noteq> 0)"
| "truthy (DateObj d) = True"

text \<open>
  \<^verbatim>\<open>new Date(String(v)).getTime()\<close>, the time the feed reads; \<open>None\<close> is NaN. The string
  of a \<^verbatim>\<open>Date\<close> object is that of \<^verbatim>\<open>toString()\<close>, which has no milliseconds: read back, a
  valid date gives its time value cut down to the whole second (for the dates that
  \<^verbatim>\<open>toString()\<close> writes with a year of four digits, as the dates of a chat are).
\<close>

fun getTime :: "timeval \<Rightarrow> int option" where
  "getTime Absent = None"
| "getTime (Text r) = r"
| "getTime (Number n r) = r"
| "getTime (DateObj None) = None"
| "getTime (DateObj (Some t)) = Some (t - t mod 1000)"

text \<open>
  \<^verbatim>\<open>new Date(v).getTime()\<close>, the time value of the date the hook constructs from a truthy
  \<open>v\<close>: a string is parsed, a number is the time value itself when it is within the range
  of dates.
\<close>

definition maxTime :: int where
  "maxTime = 8640000000000000"

fun dateOf :: "timeval \<Rightarrow> int option" where
  "dateOf Absent = None"
| "dateOf (Text r) = r"
| "dateOf (Number n r) = (if \<bar>n\<bar> \<le> maxTime then Some n else None)"
| "dateOf (DateObj d) = d"

text \<open>\<^verbatim>\<open>a.created_at || a.timestamp\<close>\<close>

definition timeOf :: "message \<Rightarrow> timeval" where
  "timeOf a = (if truthy (created_at a) then created_at a else timestamp a)"

text \<open>The comparator handed to \<^verbatim>\<open>sort\<close>: the difference of the two times, NaN when either
  is NaN.\<close>

definition compareFn :: "message \<Rightarrow> message \<Rightarrow> int option" where
  "compareFn a b =
     (case getTime (timeOf a) of
        None \<Rightarrow> None
      | Some x \<Rightarrow> (case getTime (timeOf b) of None \<Rightarrow> None | Some y \<Rightarrow> Some (x - y)))"

text \<open>
  \<^verbatim>\<open>Array.prototype.sort\<close> is the runtime's. It sees the comparator through
  \<^verbatim>\<open>SortCompare\<close>, which reads a result NaN as +0.
\<close>

definition SortCompare :: "('a \<Rightarrow> 'a \<Rightarrow> int option) \<Rightarrow> 'a \<Rightarrow> 'a \<Rightarrow> int" where
  "SortCompare cmp x y = (case cmp x y of None \<Rightarrow> 0 | Some v \<Rightarrow> v)"

text \<open>
  The results so read are consistent on a list when they satisfy the five conditions of
  ECMAScript for all \<open>a\<close>, \<open>b\<close>, \<open>c\<close> of the list: reflexivity and symmetry of "equal", and
  transitivity of "equal", "less" and "greater".
\<close>

definition consistentOn :: "('a \<Rightarrow> 'a \<Rightarrow> int option) \<Rightarrow> 'a list \<Rightarrow> bool" where
  "consistentOn cmp xs =
     (\<forall>a \<in> set xs. \<forall>b \<in> set xs. \<forall>c \<in> set xs.
        SortCompare cmp a a = 0 \<and>
        (SortCompare cmp a b = 0 \<longrightarrow> SortCompare cmp b a = 0) \<and>
        (SortCompare cmp a b = 0 \<and> SortCompare cmp b c = 0 \<longrightarrow> SortCompare cmp a c = 0) \<and>
        (SortCompare cmp a b < 0 \<and> SortCompare cmp b c < 0 \<longrightarrow> SortCompare cmp a c < 0) \<and>
        (0 < SortCompare cmp a b \<and> 0 < SortCompare cmp b c \<longrightarrow> 0 < SortCompare cmp a c))"

text \<open>The stable sort by insertion: on consistent results every stable comparison sort
  returns this list.\<close>

fun insertSorted :: "('a \<Rightarrow> 'a \<Rightarrow> int option) \<Rightarrow> 'a \<Rightarrow> 'a list \<Rightarrow> 'a list" where
  "insertSorted cmp x [] = [x]"
| "insertSorted cmp x (y # ys) =
     (if 0 < SortCompare cmp x y then y # insertSorted cmp x ys else x # y # ys)"

fun stableSort :: "('a \<Rightarrow> 'a \<Rightarrow> int option) \<Rightarrow> 'a list \<Rightarrow> 'a list" where
  "stableSort cmp [] = []"
| "stableSort cmp (x # xs) = insertSorted cmp x (stableSort cmp xs)"

text \<open>
  The sort of the runtime. On consistent results it is the stable sort. On results that
  are not consistent the order depends on the algorithm of the engine, which the code does
  not fix: \<open>engine\<close> stands for it, the list the engine returns for the given one. With
  \<open>compareFn\<close> the results are not consistent as soon as two times that resolve differ and
  a third does not resolve.
\<close>

definition Array_sort ::
    "('a list \<Rightarrow> 'a list) \<Rightarrow> ('a \<Rightarrow> 'a \<Rightarrow> int option) \<Rightarrow> 'a list \<Rightarrow> 'a list" where
  "Array_sort engine cmp xs = (if consistentOn cmp xs then stableSort cmp xs else engine xs)"

text \<open>\<^verbatim>\<open>messages.filter(msg => msg.chatId === chatId)\<close>, the prop \<^verbatim>\<open>chatId\<close> being a string
  or null.\<close>

definition liveOf :: "string option \<Rightarrow> message list \<Rightarrow> message list" where
  "liveOf cid msgs = filter (\<lambda>msg. Some (chatId msg) = cid) msgs"

text \<open>\<^verbatim>\<open>allMessages = [...chatHistory, ...messages.filter(...)].sort(...)\<close>\<close>

definition allMessages ::
    "(message list \<Rightarrow> message list) \<Rightarrow> string option \<Rightarrow> message list \<Rightarrow> message list \<Rightarrow> message list"
  where
  "allMessages engine cid chatHistory msgs =
     Array_sort engine compareFn (chatHistory @ liveOf cid msgs)"

text \<open>\<^verbatim>\<open>Array.prototype.findIndex\<close>: the first index whose element satisfies the predicate,
  -1 when there is none.\<close>

fun findIndex :: "('a \<Rightarrow> bool) \<Rightarrow> 'a list \<Rightarrow> int" where
  "findIndex P [] = - 1"
| "findIndex P (x # xs) =
     (if P x then 0 else (let r = findIndex P xs in if r < 0 then - 1 else r + 1))"

text \<open>\<^verbatim>\<open>uniqueMessages = allMessages.filter((v, i, a) => a.findIndex(t => String(t.id) ===
  String(v.id)) === i)\<close>\<close>

definition uniqueMessages :: "message list \<Rightarrow> message list" where
  "uniqueMessages a =
     map snd (filter (\<lambda>(i, v). findIndex (\<lambda>t. id_str t = id_str v) a = int i) (enumerate 0 a))"

text \<open>The feed that is rendered.\<close>

definition mergedFeed ::
    "(message list \<Rightarrow> message list) \<Rightarrow> string option \<Rightarrow> message list \<Rightarrow> message list \<Rightarrow> message list"
  where
  "mergedFeed engine cid chatHistory msgs = uniqueMessages (allMessages engine cid chatHistory msgs)"






text \<open>The first message of each id, by recursion: what \<open>uniqueMessages\<close> computes.\<close>

fun firstById :: "string list \<Rightarrow> message list \<Rightarrow> message list" where
  "firstById seen [] = []"
| "firstById seen (x # xs) =
     (if id_str x \<in> set seen then firstById seen xs else x # firstById (id_str x # seen) xs)"



section \<open>The hook of useWebSocket.ts\<close>

text \<open>
  Strings are lists of code units; the model has the code units 0 to 255, so characters
  beyond Latin-1 are outside it. \<^verbatim>\<open>content.length\<close> is \<open>length\<close>.
\<close>

datatype ConnectionState = Disconnected | Connecting | Connected | Error | Reconnecting

definition MAX_MESSAGE_LENGTH :: nat where
  "MAX_MESSAGE_LENGTH = 4000"

definition MAX_MESSAGES_BUFFER :: nat where
  "MAX_MESSAGES_BUFFER = 1000"

definition RECONNECT_INTERVALS :: "nat list" where
  "RECONNECT_INTERVALS = [1000, 2000, 5000, 10000, 30000]"

definition MAX_RECONNECT_ATTEMPTS :: nat where
  "MAX_RECONNECT_ATTEMPTS = 5"

subsection \<open>sanitizeMessage\<close>

text \<open>\<^verbatim>\<open>s.replace(/c/g, r)\<close> for a single character \<open>c\<close>.\<close>

definition replaceAll :: "char \<Rightarrow> string \<Rightarrow> string \<Rightarrow> string" where
  "replaceAll c r s = concat (map (\<lambda>x. if x = c then r else [x]) s)"

text \<open>The white space and line terminators of ECMAScript, among the code units of the
  model: TAB, LF, VT, FF, CR, SP, NBSP.\<close>

definition isWhiteSpace :: "char \<Rightarrow> bool" where
  "isWhiteSpace c = ((of_char c :: nat) \<in> {9, 10, 11, 12, 13, 32, 160})"

text \<open>\<^verbatim>\<open>String.prototype.trim\<close>\<close>

definition trim :: "string \<Rightarrow> string" where
  "trim s = rev (dropWhile isWhiteSpace (rev (dropWhile isWhiteSpace s)))"

text \<open>
  The four replacements as the source has them, in its order: \<^verbatim>\<open><\<close> by \<^verbatim>\<open><\<close>,
  \<^verbatim>\<open>>\<close> by \<^verbatim>\<open>>\<close>, the double quote (code unit 0x22) by the double quote, the apostrophe
  (0x27) by \<^verbatim>\<open>&#x27;\<close>; then \<^verbatim>\<open>trim()\<close>. There is no replacement of \<^verbatim>\<open>&\<close>.
\<close>

definition sanitizeMessage :: "string \<Rightarrow> string" where
  "sanitizeMessage c =
     trim (replaceAll (CHR 0x27) ''&#x27;''
            (replaceAll (CHR 0x22) [CHR 0x22]
              (replaceAll (CHR ''>'') ''>''
                (replaceAll (CHR ''<'') ''<'' c))))"

subsection \<open>Inbound frames\<close>

text \<open>
  What \<^verbatim>\<open>JSON.parse(event.data)\<close> gives, as far as the handler looks at it. A field of
  type \<open>string option\<close> is \<open>Some s\<close> when the property is there with \<^verbatim>\<open>typeof\<close> string,
  \<open>None\<close> otherwise.
  \<^item> \<open>Garbled\<close>: \<^verbatim>\<open>JSON.parse\<close> throws, or the text is \<^verbatim>\<open>null\<close> and reading \<^verbatim>\<open>data.type\<close>
    throws; the \<^verbatim>\<open>catch\<close> takes both;
  \<^item> \<open>Primitive\<close>: a number, a string or a boolean;
  \<^item> \<open>Object p\<close>: an object (or array) with the properties \<open>p\<close>.
\<close>

record payload =
  p_type :: "string option"
  p_id :: "string option"
  p_content :: "string option"
  p_sender :: "string option"
  p_chatId :: "string option"
  p_timestamp :: timeval
  p_created_at :: timeval

datatype frame = Garbled | Primitive | Object payload

fun validateMessage :: "frame \<Rightarrow> bool" where
  "validateMessage Garbled = False"
| "validateMessage Primitive = False"
| "validateMessage (Object p) =
     (p_id p \<noteq> None \<and> p_content p \<noteq> None \<and> p_sender p \<noteq> None \<and> p_chatId p \<noteq> None \<and>
      length (the (p_content p)) \<le> MAX_MESSAGE_LENGTH)"

subsection \<open>Outbound frames\<close>

text \<open>\<^verbatim>\<open>JSON.stringify\<close> of a string: quotes, with the double quote, the backslash and the
  control characters escaped.\<close>

definition hexDigit :: "nat \<Rightarrow> char" where
  "hexDigit n = (if n < 10 then char_of (48 + n) else char_of (87 + n))"

definition escapeUnit :: "char \<Rightarrow> string" where
  "escapeUnit c =
     (let n = (of_char c :: nat) in
      if n = 0x22 then [CHR 0x5C, CHR 0x22]
      else if n = 0x5C then [CHR 0x5C, CHR 0x5C]
      else if n = 8 then [CHR 0x5C, CHR ''b'']
      else if n = 12 then [CHR 0x5C, CHR ''f'']
      else if n = 10 then [CHR 0x5C, CHR ''n'']
      else if n = 13 then [CHR 0x5C, CHR ''r'']
      else if n = 9 then [CHR 0x5C, CHR ''t'']
      else if n < 32 then [CHR 0x5C, CHR ''u'', CHR ''0'', CHR ''0'', hexDigit (n div 16), hexDigit (n mod 16)]
      else [c])"

definition quoteJSON :: "string \<Rightarrow> string" where
  "quoteJSON s = [CHR 0x22] @ concat (map escapeUnit s) @ [CHR 0x22]"

text \<open>The message object of \<^verbatim>\<open>sendMessage\<close>, its properties in the order of the source.\<close>

record outbound =
  o_id :: string
  o_chatId :: string
  o_content :: string
  o_timestamp :: string
  o_sender :: string

definition JSON_stringify :: "outbound \<Rightarrow> string" where
  "JSON_stringify m =
     ''{'' @ quoteJSON ''id'' @ '':'' @ quoteJSON (o_id m) @
     '','' @ quoteJSON ''chatId'' @ '':'' @ quoteJSON (o_chatId m) @
     '','' @ quoteJSON ''content'' @ '':'' @ quoteJSON (o_content m) @
     '','' @ quoteJSON ''timestamp'' @ '':'' @ quoteJSON (o_timestamp m) @
     '','' @ quoteJSON ''sender'' @ '':'' @ quoteJSON (o_sender m) @ ''}''"

text \<open>\<^verbatim>\<open>JSON.stringify({ type: 'ping' })\<close>\<close>

definition pingFrame :: string where
  "pingFrame = ''{'' @ quoteJSON ''type'' @ '':'' @ quoteJSON ''ping'' @ ''}''"

subsection \<open>The state of one hook instance\<close>

datatype ReadyState = CONNECTING | OPEN | CLOSING | CLOSED

text \<open>A handle of \<^verbatim>\<open>setTimeout\<close>: pending with its delay, cancelled by \<^verbatim>\<open>clearTimeout\<close>,
  or run.\<close>

datatype timer = Pending nat | Cleared | Fired

text \<open>The arguments of the hook. \<open>urlParses\<close> says whether \<^verbatim>\<open>new URL(url)\<close> and
  \<^verbatim>\<open>new WebSocket(...)\<close> accept the url (both throw otherwise).\<close>

record props =
  url :: "string option"
  authToken :: "string option"
  urlParses :: bool

text \<open>A socket constructed by \<^verbatim>\<open>new WebSocket(secureUrl)\<close>: its target (the base url and
  the search parameter \<^verbatim>\<open>token\<close>) and its \<^verbatim>\<open>readyState\<close>.\<close>

record socket =
  target :: "string \<times> string option"
  readyState :: ReadyState

text \<open>
  The React state (\<open>connectionState\<close>, \<open>messages\<close>, \<open>error\<close>), the refs, and what the
  runtime holds for this instance: every socket constructed so far (\<open>wsRef\<close> is an index
  into \<open>sockets\<close>), every timeout and interval handle (the refs are indices), and \<open>wire\<close>,
  the frames handed to \<^verbatim>\<open>send\<close> so far, each with its socket, in order.
\<close>

record hook =
  connectionState :: ConnectionState
  messages :: "message list"
  error :: "string option"
  wsRef :: "nat option"
  reconnectAttempts :: nat
  reconnectTimeoutRef :: "nat option"
  heartbeatIntervalRef :: "nat option"
  messageQueue :: "string list"
  sockets :: "socket list"
  timeouts :: "timer list"
  intervals :: "bool list"
  wire :: "(nat \<times> string) list"

definition initial :: hook where
  "initial = \<lparr>connectionState = Disconnected, messages = [], error = None, wsRef = None,
     reconnectAttempts = 0, reconnectTimeoutRef = None, heartbeatIntervalRef = None,
     messageQueue = [], sockets = [], timeouts = [], intervals = [], wire = []\<rparr>"

text \<open>\<^verbatim>\<open>ws.readyState\<close> of socket \<open>k\<close>; a handle that was never constructed counts as closed.\<close>

definition readyStateOf :: "hook \<Rightarrow> nat \<Rightarrow> ReadyState" where
  "readyStateOf st k = (if k < length (sockets st) then readyState (sockets st ! k) else CLOSED)"

definition setReadyState :: "nat \<Rightarrow> ReadyState \<Rightarrow> hook \<Rightarrow> hook" where
  "setReadyState k r st =
     (if k < length (sockets st)
      then st\<lparr>sockets := (sockets st)[k := (sockets st ! k)\<lparr>readyState := r\<rparr>]\<rparr>
      else st)"

text \<open>\<^verbatim>\<open>wsRef.current?.readyState === WebSocket.OPEN\<close>\<close>

definition currentOpen :: "hook \<Rightarrow> bool" where
  "currentOpen st = (case wsRef st of None \<Rightarrow> False | Some k \<Rightarrow> readyStateOf st k = OPEN)"

text \<open>\<^verbatim>\<open>ws.send(data)\<close> on an open socket; it leaves \<^verbatim>\<open>readyState\<close> as it is.\<close>

definition ws_send :: "nat \<Rightarrow> string \<Rightarrow> hook \<Rightarrow> hook" where
  "ws_send k d st = st\<lparr>wire := wire st @ [(k, d)]\<rparr>"

text \<open>\<open>None\<close> is the throw of \<^verbatim>\<open>Error('Invalid WebSocket URL')\<close>.\<close>

definition buildSecureWebSocketUrl :: "props \<Rightarrow> string \<Rightarrow> (string \<times> string option) option" where
  "buildSecureWebSocketUrl p baseUrl =
     (if urlParses p
      then Some (baseUrl, (case authToken p of None \<Rightarrow> None
                           | Some t \<Rightarrow> if t = [] then None else Some t))
      else None)"

definition startHeartbeat :: "hook \<Rightarrow> hook" where
  "startHeartbeat st =
     (let st1 = (case heartbeatIntervalRef st of
                   None \<Rightarrow> st
                 | Some h \<Rightarrow> st\<lparr>intervals := (intervals st)[h := False]\<rparr>)
      in st1\<lparr>heartbeatIntervalRef := Some (length (intervals st1)),
             intervals := intervals st1 @ [True]\<rparr>)"

definition stopHeartbeat :: "hook \<Rightarrow> hook" where
  "stopHeartbeat st =
     (case heartbeatIntervalRef st of
        None \<Rightarrow> st
      | Some h \<Rightarrow> st\<lparr>intervals := (intervals st)[h := False], heartbeatIntervalRef := None\<rparr>)"

text \<open>The callback of the heartbeat interval \<open>h\<close>.\<close>

definition heartbeatTick :: "nat \<Rightarrow> hook \<Rightarrow> hook" where
  "heartbeatTick h st =
     (if h < length (intervals st) \<and> intervals st ! h
      then (case wsRef st of
              None \<Rightarrow> st
            | Some k \<Rightarrow> if readyStateOf st k = OPEN then ws_send k pingFrame st else st)
      else st)"

text \<open>\<^verbatim>\<open>connect\<close>, up to the assignment of the handlers. A throw inside the \<^verbatim>\<open>try\<close> comes
  after \<^verbatim>\<open>setConnectionState('connecting')\<close> and \<^verbatim>\<open>setError(null)\<close>, which the \<^verbatim>\<open>catch\<close>
  overwrites.\<close>

definition connect :: "props \<Rightarrow> hook \<Rightarrow> hook" where
  "connect p st =
     (case url p of
        None \<Rightarrow> st\<lparr>connectionState := Disconnected\<rparr>
      | Some u \<Rightarrow>
          if u = [] then st\<lparr>connectionState := Disconnected\<rparr>
          else if currentOpen st then st
          else (case buildSecureWebSocketUrl p u of
                  None \<Rightarrow> st\<lparr>connectionState := Error,
                              error := Some ''Failed to establish connection''\<rparr>
                | Some secureUrl \<Rightarrow>
                    st\<lparr>connectionState := Connecting, error := None,
                       wsRef := Some (length (sockets st)),
                       sockets := sockets st @ [\<lparr>target = secureUrl, readyState = CONNECTING\<rparr>]\<rparr>))"

text \<open>The loop of \<^verbatim>\<open>ws.onopen\<close> over the queue, \<open>k\<close> being the socket \<^verbatim>\<open>ws\<close> of the closure.\<close>

function flushQueue :: "nat \<Rightarrow> hook \<Rightarrow> hook" where
  "flushQueue k st =
     (case messageQueue st of
        [] \<Rightarrow> st
      | queuedMessage # rest \<Rightarrow>
          flushQueue k
            (if queuedMessage \<noteq> [] \<and> readyStateOf st k = OPEN
             then ws_send k queuedMessage (st\<lparr>messageQueue := rest\<rparr>)
             else st\<lparr>messageQueue := rest\<rparr>))"
  by pat_completeness auto
termination
  by (relation "measure (\<lambda>(k, st). length (messageQueue st))") (auto simp: ws_send_def)

declare flushQueue.simps [simp del]

definition onopen :: "nat \<Rightarrow> hook \<Rightarrow> hook" where
  "onopen k st =
     flushQueue k
       (startHeartbeat (st\<lparr>connectionState := Connected, error := None, reconnectAttempts := 0\<rparr>))"

definition onclose :: "nat \<Rightarrow> hook \<Rightarrow> hook" where
  "onclose code st =
     (let st1 = stopHeartbeat (st\<lparr>connectionState := Disconnected\<rparr>) in
      if code = 4001 then st1\<lparr>error := Some ''Authentication failed. Please log in again.''\<rparr>
      else if code = 4003 then st1\<lparr>error := Some ''Rate limit exceeded. Please slow down.''\<rparr>
      else if code \<noteq> 1000 \<and> reconnectAttempts st1 < MAX_RECONNECT_ATTEMPTS then
        (let delay = RECONNECT_INTERVALS !
                       (min (reconnectAttempts st1) (length RECONNECT_INTERVALS - 1))
         in st1\<lparr>connectionState := Reconnecting,
                reconnectTimeoutRef := Some (length (timeouts st1)),
                timeouts := timeouts st1 @ [Pending delay]\<rparr>)
      else if reconnectAttempts st1 \<ge> MAX_RECONNECT_ATTEMPTS then
        st1\<lparr>error := Some ''Connection failed after multiple attempts. Please refresh the page.''\<rparr>
      else st1)"

definition onerror :: "hook \<Rightarrow> hook" where
  "onerror st = st\<lparr>connectionState := Error, error := Some ''Connection error occurred''\<rparr>"

text \<open>\<^verbatim>\<open>xs.slice(-n)\<close>: the last \<open>n\<close> elements.\<close>

definition sliceLast :: "nat \<Rightarrow> 'a list \<Rightarrow> 'a list" where
  "sliceLast n xs = drop (length xs - n) xs"

text \<open>\<^verbatim>\<open>ws.onmessage\<close>; \<open>now\<close> is what \<^verbatim>\<open>Date.now()\<close> gives. The message stored has
  the date \<^verbatim>\<open>new Date(data.timestamp || Date.now())\<close> as its timestamp.\<close>

definition onmessage :: "int \<Rightarrow> frame \<Rightarrow> hook \<Rightarrow> hook" where
  "onmessage now fr st =
     (case fr of
        Garbled \<Rightarrow> st
      | Primitive \<Rightarrow> st
      | Object data \<Rightarrow>
          if p_type data = Some ''pong'' then st
          else if \<not> validateMessage fr then st
          else
            (let sanitizedMessage =
                   \<lparr>id_str = the (p_id data),
                    content = sanitizeMessage (the (p_content data)),
                    sender = the (p_sender data),
                    timestamp = DateObj (if truthy (p_timestamp data)
                                         then dateOf (p_timestamp data) else Some now),
                    chatId = the (p_chatId data),
                    created_at = p_created_at data\<rparr>
             in st\<lparr>messages := sliceLast MAX_MESSAGES_BUFFER (messages st @ [sanitizedMessage])\<rparr>))"

definition disconnect :: "hook \<Rightarrow> hook" where
  "disconnect st =
     (let st1 = (case reconnectTimeoutRef st of
                   None \<Rightarrow> st
                 | Some h \<Rightarrow>
                     st\<lparr>timeouts := (if h < length (timeouts st) \<and> timeouts st ! h \<noteq> Fired
                                      then (timeouts st)[h := Cleared] else timeouts st),
                        reconnectTimeoutRef := None\<rparr>);
          st2 = stopHeartbeat st1;
          st3 = (case wsRef st2 of
                   None \<Rightarrow> st2
                 | Some k \<Rightarrow>
                     (if readyStateOf st2 k = CLOSED then st2 else setReadyState k CLOSING st2)
                       \<lparr>wsRef := None\<rparr>)
      in st3\<lparr>connectionState := Disconnected, reconnectAttempts := 0\<rparr>)"

text \<open>The callback of the reconnect timeout \<open>h\<close>.\<close>

definition reconnectTimeout :: "props \<Rightarrow> nat \<Rightarrow> hook \<Rightarrow> hook" where
  "reconnectTimeout p h st =
     (if h < length (timeouts st)
      then (case timeouts st ! h of
              Pending d \<Rightarrow> connect p (st\<lparr>timeouts := (timeouts st)[h := Fired],
                                             reconnectAttempts := reconnectAttempts st + 1\<rparr>)
            | Cleared \<Rightarrow> st
            | Fired \<Rightarrow> st)
      else st)"

text \<open>\<^verbatim>\<open>sendMessage(chatId, content)\<close>; \<open>uuid\<close> is what \<^verbatim>\<open>crypto.randomUUID()\<close> gives and
  \<open>isoNow\<close> what \<^verbatim>\<open>new Date().toISOString()\<close> gives. The result is the returned boolean and
  the state.\<close>

definition messageStr :: "string \<Rightarrow> string \<Rightarrow> string \<Rightarrow> string \<Rightarrow> string" where
  "messageStr uuid isoNow cid c =
     (let sanitizedContent = sanitizeMessage c
      in JSON_stringify \<lparr>o_id = uuid, o_chatId = cid, o_content = sanitizedContent,
                         o_timestamp = isoNow, o_sender = ''You''\<rparr>)"

definition sendMessage :: "string \<Rightarrow> string \<Rightarrow> string \<Rightarrow> string \<Rightarrow> hook \<Rightarrow> bool \<times> hook" where
  "sendMessage uuid isoNow cid c st =
     (if trim c = [] then (False, st)
      else if length c > MAX_MESSAGE_LENGTH then
        (False, st\<lparr>error := Some ''Message too long. Maximum 4000 characters.''\<rparr>)
      else
        (case wsRef st of
           None \<Rightarrow> (False, st\<lparr>messageQueue := messageQueue st @ [messageStr uuid isoNow cid c]\<rparr>)
         | Some k \<Rightarrow>
             if readyStateOf st k = OPEN then (True, ws_send k (messageStr uuid isoNow cid c) st)
             else (False, st\<lparr>messageQueue := messageQueue st @ [messageStr uuid isoNow cid c]\<rparr>)))"



text \<open>Content that passes the two checks of \<^verbatim>\<open>sendMessage\<close>.\<close>

definition validOutbound :: "string \<Rightarrow> bool" where
  "validOutbound c = (trim c \<noteq> [] \<and> length c \<le> MAX_MESSAGE_LENGTH)"

subsection \<open>Events\<close>

text \<open>
  What the runtime delivers to one hook instance: the events of socket \<open>k\<close> and the
  callbacks of the timers. The runtime fires \<^verbatim>\<open>open\<close> for a connecting socket, which is
  open from then on; \<^verbatim>\<open>close\<close> once for a socket, which is closed from then on;
  \<^verbatim>\<open>message\<close> for an open socket.
\<close>

datatype event =
    OpenEv nat
  | CloseEv nat nat
  | ErrorEv nat
  | MessageEv nat int frame
  | TimeoutEv nat
  | IntervalEv nat

fun step :: "props \<Rightarrow> event \<Rightarrow> hook \<Rightarrow> hook" where
  "step p (OpenEv k) st =
     (if readyStateOf st k = CONNECTING then onopen k (setReadyState k OPEN st) else st)"
| "step p (CloseEv k code) st =
     (if k < length (sockets st) \<and> readyStateOf st k \<noteq> CLOSED
      then onclose code (setReadyState k CLOSED st) else st)"
| "step p (ErrorEv k) st =
     (if k < length (sockets st) \<and> readyStateOf st k \<noteq> CLOSED then onerror st else st)"
| "step p (MessageEv k now fr) st =
     (if readyStateOf st k = OPEN then onmessage now fr st else st)"
| "step p (TimeoutEv h) st = reconnectTimeout p h st"
| "step p (IntervalEv h) st = heartbeatTick h st"

fun run :: "props \<Rightarrow> event list \<Rightarrow> hook \<Rightarrow> hook" where
  "run p [] st = st"
| "run p (e # es) st = run p es (step p e st)"

text \<open>A channel is live while its socket is connecting or open.\<close>

definition isLive :: "socket \<Rightarrow> bool" where
  "isLive s = (readyState s = CONNECTING \<or> readyState s = OPEN)"

definition liveChannels :: "hook \<Rightarrow> socket list" where
  "liveChannels st = filter isLive (sockets st)"

text \<open>No timeout is pending; no socket is connecting.\<close>

definition noPending :: "hook \<Rightarrow> bool" where
  "noPending st = list_all (\<lambda>t. t = Cleared \<or> t = Fired) (timeouts st)"

definition noConnecting :: "hook \<Rightarrow> bool" where
  "noConnecting st = list_all (\<lambda>s. readyState s \<noteq> CONNECTING) (sockets st)"

subsection \<open>Scenarios of the hook\<close>

definition scriptFrame :: frame where
  "scriptFrame = Object \<lparr>p_type = None, p_id = Some ''m1'', p_content = Some ''<script>'',
     p_sender = Some ''ann'', p_chatId = Some ''42'', p_timestamp = Absent,
     p_created_at = Absent\<rparr>"

definition demoProps :: props where
  "demoProps = \<lparr>url = Some ''ws://localhost:8000/ws/42'', authToken = None, urlParses = True\<rparr>"

text \<open>Five failed attempts in a row: each socket reports an error and closes with code
  1006, and the reconnect timeout runs; then the sixth socket reports an error.\<close>

definition giveUpRun :: "event list" where
  "giveUpRun =
     [ErrorEv 0, CloseEv 0 1006, TimeoutEv 0, ErrorEv 1, CloseEv 1 1006, TimeoutEv 1,
      ErrorEv 2, CloseEv 2 1006, TimeoutEv 2, ErrorEv 3, CloseEv 3 1006, TimeoutEv 3,
      ErrorEv 4, CloseEv 4 1006, TimeoutEv 4, ErrorEv 5]"

text \<open>The retry counter is at the ceiling, no timeout is pending and no socket is
  connecting.\<close>

definition gaveUp :: "hook \<Rightarrow> bool" where
  "gaveUp st = (MAX_RECONNECT_ATTEMPTS \<le> reconnectAttempts st \<and> noPending st \<and> noConnecting st)"

text \<open>The state after \<open>giveUpRun\<close>: five attempts made, the sixth socket connecting.\<close>

definition atCeiling :: hook where
  "atCeiling = run demoProps giveUpRun (connect demoProps initial)"

text \<open>The first socket has closed with code 1006 and its reconnect timeout is pending; then
  \<^verbatim>\<open>connect\<close> is called by hand.\<close>

definition reconnectingThenConnect :: hook where
  "reconnectingThenConnect =
     connect demoProps (step demoProps (CloseEv 0 1006) (connect demoProps initial))"


subsection \<open>The scenario of chat 42\<close>
















section \<open>Facts about the feed\<close>

lemma findIndex_ge: "- 1 \<le> findIndex P xs"
  by (induction xs) (auto simp: Let_def)

lemma findIndex_append_hit:
  "P x \<Longrightarrow> (findIndex P (p @ x # s) = int (length p)) = (\<forall>y \<in> set p. \<not> P y)"
proof (induction p)
  case Nil
  then show ?case by simp
next
  case (Cons a p)
  have "- 1 \<le> findIndex P (p @ x # s)" by (rule findIndex_ge)
  with Cons show ?case by (auto simp: Let_def)
qed

lemma firstById_seen_set: "set s1 = set s2 \<Longrightarrow> firstById s1 xs = firstById s2 xs"
proof (induction xs arbitrary: s1 s2)
  case Nil
  then show ?case by simp
next
  case (Cons x xs)
  have "firstById (id_str x # s1) xs = firstById (id_str x # s2) xs"
    by (rule Cons.IH) (simp add: Cons.prems)
  moreover have "firstById s1 xs = firstById s2 xs"
    by (rule Cons.IH) (rule Cons.prems)
  ultimately show ?case using Cons.prems by simp
qed

lemma unique_suffix:
  "map snd (filter (\<lambda>(i, v). findIndex (\<lambda>t. id_str t = id_str v) (p @ s) = int i)
      (enumerate (length p) s)) = firstById (map id_str p) s"
proof (induction s arbitrary: p)
  case Nil
  then show ?case by simp
next
  case (Cons x s)
  have hit: "(findIndex (\<lambda>t. id_str t = id_str x) (p @ x # s) = int (length p))
      = (id_str x \<notin> set (map id_str p))"
  proof -
    have "(findIndex (\<lambda>t. id_str t = id_str x) (p @ x # s) = int (length p))
        = (\<forall>y \<in> set p. id_str y \<noteq> id_str x)"
      using findIndex_append_hit [of "\<lambda>t. id_str t = id_str x" x p s] by simp
    also have "\<dots> = (id_str x \<notin> set (map id_str p))"
      by (induction p) auto
    finally show ?thesis .
  qed
  have step: "map snd (filter (\<lambda>(i, v). findIndex (\<lambda>t. id_str t = id_str v) ((p @ [x]) @ s) = int i)
      (enumerate (length (p @ [x])) s)) = firstById (map id_str (p @ [x])) s"
    by (rule Cons.IH)
  have seen: "firstById (map id_str p @ [id_str x]) s = firstById (id_str x # map id_str p) s"
    by (rule firstById_seen_set) auto
  have seen': "id_str x \<in> set (map id_str p) \<Longrightarrow>
      firstById (id_str x # map id_str p) s = firstById (map id_str p) s"
    by (rule firstById_seen_set) auto
  show ?case
    using hit step seen seen' by simp
qed

lemma uniqueMessages_firstById: "uniqueMessages a = firstById [] a"
  using unique_suffix [of "[]" a] by (simp add: uniqueMessages_def)

lemma firstById_ids: "set (map id_str (firstById seen xs)) \<inter> set seen = {}"
  by (induction seen xs rule: firstById.induct) auto

lemma firstById_distinct: "distinct (map id_str (firstById seen xs))"
proof (induction seen xs rule: firstById.induct)
  case (1 seen)
  then show ?case by simp
next
  case (2 seen x xs)
  have "id_str x \<notin> set (map id_str (firstById (id_str x # seen) xs))"
    using firstById_ids [of "id_str x # seen" xs] by auto
  with 2 show ?case by auto
qed































section \<open>The claims about the feed\<close>

text \<open>
  C4. Whatever the historical list and the live list are, also with an id repeated within
  one of them or across the two, and whatever order the sort of the engine returns, no id
  occurs twice in the merged feed.
\<close>

theorem mergedFeed_ids_distinct:
  "distinct (map id_str (mergedFeed engine cid chatHistory msgs))"
  by (simp add: mergedFeed_def uniqueMessages_firstById firstById_distinct)










section \<open>Facts about the hook\<close>

lemmas hook_defs = onopen_def onclose_def onerror_def onmessage_def connect_def disconnect_def
  reconnectTimeout_def heartbeatTick_def startHeartbeat_def stopHeartbeat_def
  readyStateOf_def setReadyState_def currentOpen_def ws_send_def buildSecureWebSocketUrl_def
  MAX_RECONNECT_ATTEMPTS_def RECONNECT_INTERVALS_def

lemma stopHeartbeat_fields [simp]:
  "timeouts (stopHeartbeat st) = timeouts st"
  "sockets (stopHeartbeat st) = sockets st"
  "reconnectAttempts (stopHeartbeat st) = reconnectAttempts st"
  "reconnectTimeoutRef (stopHeartbeat st) = reconnectTimeoutRef st"
  "wsRef (stopHeartbeat st) = wsRef st"
  "messageQueue (stopHeartbeat st) = messageQueue st"
  "wire (stopHeartbeat st) = wire st"
  "error (stopHeartbeat st) = error st"
  "connectionState (stopHeartbeat st) = connectionState st"
  by (simp_all add: stopHeartbeat_def split: option.splits)

lemma onclose_at_ceiling:
  assumes "MAX_RECONNECT_ATTEMPTS \<le> reconnectAttempts st"
  shows "timeouts (onclose code st) = timeouts st"
    and "sockets (onclose code st) = sockets st"
    and "reconnectAttempts (onclose code st) = reconnectAttempts st"
    and "connectionState (onclose code st) = Disconnected"
    and "code \<noteq> 4001 \<Longrightarrow> code \<noteq> 4003 \<Longrightarrow> error (onclose code st) =
           Some ''Connection failed after multiple attempts. Please refresh the page.''"
  using assms by (simp_all add: onclose_def Let_def)

lemma noConnecting_readyState: "noConnecting st \<Longrightarrow> readyStateOf st k \<noteq> CONNECTING"
  by (auto simp: noConnecting_def readyStateOf_def list_all_length)

lemma noConnecting_setClosed: "noConnecting st \<Longrightarrow> noConnecting (setReadyState k CLOSED st)"
  by (auto simp: noConnecting_def setReadyState_def list_all_length nth_list_update)

lemma setReadyState_fields [simp]:
  "timeouts (setReadyState k r st) = timeouts st"
  "reconnectAttempts (setReadyState k r st) = reconnectAttempts st"
  "wsRef (setReadyState k r st) = wsRef st"
  "messageQueue (setReadyState k r st) = messageQueue st"
  "wire (setReadyState k r st) = wire st"
  "length (sockets (setReadyState k r st)) = length (sockets st)"
  by (simp_all add: setReadyState_def)

lemma noPending_nth: "noPending st \<Longrightarrow> h < length (timeouts st) \<Longrightarrow>
    timeouts st ! h = Cleared \<or> timeouts st ! h = Fired"
  by (auto simp: noPending_def list_all_length)

lemma onclose_gaveUp:
  assumes "gaveUp st"
  shows "gaveUp (onclose code st) \<and> timeouts (onclose code st) = timeouts st"
proof -
  have a: "MAX_RECONNECT_ATTEMPTS \<le> reconnectAttempts st" using assms by (simp add:
      gaveUp_def)
  have c: "noConnecting (onclose code st)"
    using assms by (simp add: gaveUp_def noConnecting_def onclose_at_ceiling(2) [OF a])
  have n: "noPending (onclose code st)"
    using assms by (simp add: gaveUp_def noPending_def onclose_at_ceiling(1) [OF a])
  show ?thesis
    using a c n by (simp add: gaveUp_def onclose_at_ceiling [OF a])
qed

lemma step_gaveUp:
  assumes "gaveUp st"
  shows "gaveUp (step p e st) \<and> timeouts (step p e st) = timeouts st"
proof (cases e)
  case (OpenEv k)
  with assms show ?thesis by (simp add: gaveUp_def noConnecting_readyState)
next
  case (CloseEv k code)
  have "gaveUp (setReadyState k CLOSED st)"
    using assms by (simp add: gaveUp_def noConnecting_setClosed noPending_def)
  from onclose_gaveUp [OF this, of code] CloseEv assms show ?thesis by simp
next
  case (ErrorEv k)
  with assms show ?thesis by (simp add: gaveUp_def onerror_def noPending_def noConnecting_def)
next
  case (MessageEv k now fr)
  with assms show ?thesis
    by (simp add: gaveUp_def onmessage_def noPending_def noConnecting_def Let_def
        split: frame.splits)
next
  case (TimeoutEv h)
  with assms noPending_nth [of st h] show ?thesis
    by (auto simp: gaveUp_def reconnectTimeout_def)
next
  case (IntervalEv h)
  with assms show ?thesis
    by (simp add: gaveUp_def heartbeatTick_def ws_send_def noPending_def noConnecting_def
        split: option.splits)
qed

lemma run_gaveUp: "gaveUp st \<Longrightarrow> gaveUp (run p es st) \<and> timeouts (run p es st) = timeouts st"
proof (induction es arbitrary: st)
  case Nil
  then show ?case by simp
next
  case (Cons e es)
  from step_gaveUp [OF Cons.prems, of p e]
  have g: "gaveUp (step p e st)" and t: "timeouts (step p e st) = timeouts st" by simp_all
  from Cons.IH [OF g] t show ?case by simp
qed

lemma startHeartbeat_fields [simp]:
  "sockets (startHeartbeat st) = sockets st"
  "messageQueue (startHeartbeat st) = messageQueue st"
  "wire (startHeartbeat st) = wire st"
  "connectionState (startHeartbeat st) = connectionState st"
  by (simp_all add: startHeartbeat_def Let_def split: option.splits)

lemma readyStateOf_simps [simp]:
  "readyStateOf (st\<lparr>messageQueue := q\<rparr>) k = readyStateOf st k"
  "readyStateOf (ws_send j d st) k = readyStateOf st k"
  "readyStateOf (startHeartbeat st) k = readyStateOf st k"
  "readyStateOf (st\<lparr>connectionState := cs, error := e, reconnectAttempts := n\<rparr>) k =
     readyStateOf st k"
  by (simp_all add: readyStateOf_def ws_send_def)








lemma connect_keeps:
  "timeouts (connect p st) = timeouts st \<and>
   take (length (sockets st)) (sockets (connect p st)) = sockets st"
  by (simp add: connect_def split: option.splits)

lemma connect_live: "length (liveChannels (connect p st)) \<le> Suc (length (liveChannels st))"
  by (simp add: connect_def liveChannels_def split: option.splits)

lemma disconnect_sockets:
  "sockets (disconnect st) =
     (case wsRef st of
        None \<Rightarrow> sockets st
      | Some k \<Rightarrow> if readyStateOf st k = CLOSED then sockets st
                  else (sockets st)[k := (sockets st ! k)\<lparr>readyState := CLOSING\<rparr>])"
  by (simp add: disconnect_def Let_def setReadyState_def readyStateOf_def stopHeartbeat_def
      split: option.splits)

lemma disconnect_no_live:
  assumes "\<forall>k < length (sockets st). wsRef st \<noteq> Some k \<longrightarrow> \<not> isLive (sockets st ! k)"
  shows "liveChannels (disconnect st) = []"
proof -
  have "\<not> isLive (sockets (disconnect st) ! j)" if "j < length (sockets (disconnect st))" for j
  proof (cases "wsRef st")
    case None
    with assms that show ?thesis by (simp add: disconnect_sockets)
  next
    case (Some k)
    show ?thesis
    proof (cases "j = k")
      case True
      with Some that show ?thesis
        by (auto simp: disconnect_sockets isLive_def readyStateOf_def split: if_splits)
    next
      case False
      with Some assms that show ?thesis
        by (auto simp: disconnect_sockets split: if_splits)
    qed
  qed
  then show ?thesis
    by (auto simp: liveChannels_def filter_empty_conv in_set_conv_nth)
qed

lemma disconnect_timeout:
  "reconnectTimeoutRef st = Some h \<Longrightarrow> h < length (timeouts st) \<Longrightarrow>
     timeouts (disconnect st) ! h \<noteq> Pending d"
  by (auto simp: disconnect_def Let_def setReadyState_def stopHeartbeat_def split: option.splits)

lemma atCeiling_state:
  "atCeiling =
     \<lparr>connectionState = Error, messages = [], error = Some ''Connection error occurred'',
      wsRef = Some 5, reconnectAttempts = 5, reconnectTimeoutRef = Some 4,
      heartbeatIntervalRef = None, messageQueue = [],
      sockets =
        [\<lparr>target = (''ws://localhost:8000/ws/42'', None), readyState = CLOSED\<rparr>,
         \<lparr>target = (''ws://localhost:8000/ws/42'', None), readyState = CLOSED\<rparr>,
         \<lparr>target = (''ws://localhost:8000/ws/42'', None), readyState = CLOSED\<rparr>,
         \<lparr>target = (''ws://localhost:8000/ws/42'', None), readyState = CLOSED\<rparr>,
         \<lparr>target = (''ws://localhost:8000/ws/42'', None), readyState = CLOSED\<rparr>,
         \<lparr>target = (''ws://localhost:8000/ws/42'', None), readyState = CONNECTING\<rparr>],
      timeouts = [Fired, Fired, Fired, Fired, Fired], intervals = [], wire = []\<rparr>"
  by (simp add: atCeiling_def giveUpRun_def demoProps_def initial_def hook_defs)


lemma reconnectingThenConnect_state:
  "reconnectingThenConnect =
     \<lparr>connectionState = Connecting, messages = [], error = None,
      wsRef = Some 1, reconnectAttempts = 0, reconnectTimeoutRef = Some 0,
      heartbeatIntervalRef = None, messageQueue = [],
      sockets = [\<lparr>target = (''ws://localhost:8000/ws/42'', None), readyState = CLOSED\<rparr>,
                 \<lparr>target = (''ws://localhost:8000/ws/42'', None), readyState = CONNECTING\<rparr>],
      timeouts = [Pending 1000], intervals = [], wire = []\<rparr>"
  by (simp add: reconnectingThenConnect_def demoProps_def initial_def hook_defs)

lemma trim_examples:
  "trim ''hello'' = ''hello''" "trim ''world'' = ''world''" "trim ''   '' = []"
  by (simp_all add: trim_def isWhiteSpace_def)

section \<open>The claims about the hook\<close>

text \<open>
  C1, at the inbound payload with id \<open>m1\<close> and content \<^verbatim>\<open><script>\<close>: the payload is
  accepted, and the content stored is \<^verbatim>\<open><script>\<close> itself, with the two characters
  \<^verbatim>\<open><\<close> and \<^verbatim>\<open>>\<close> as they came. The replacement strings that \<open>sanitizeMessage\<close> has for
  \<^verbatim>\<open><\<close>, \<^verbatim>\<open>>\<close> and the double quote are these characters themselves.
\<close>

theorem onmessage_script_stored_literally:
  "messages (onmessage 0 scriptFrame initial) =
     [\<lparr>id_str = ''m1'', content = ''<script>'', sender = ''ann'', timestamp = DateObj (Some 0),
       chatId = ''42'', created_at = Absent\<rparr>]"
  by (simp add: onmessage_def scriptFrame_def initial_def sliceLast_def MAX_MESSAGE_LENGTH_def
      MAX_MESSAGES_BUFFER_def sanitizeMessage_def replaceAll_def trim_def isWhiteSpace_def)

text \<open>
  C5, as the specification states it, after five failed attempts in a row: the retry
  counter is at the ceiling, the sixth socket reports an error and closes with code 1006,
  and the connection state is \<open>Disconnected\<close>, not \<open>Error\<close>.
\<close>

theorem close_at_ceiling_not_error:
  "reconnectAttempts atCeiling = MAX_RECONNECT_ATTEMPTS \<and>
   connectionState (step demoProps (CloseEv 5 1006) atCeiling) = Disconnected \<and>
   connectionState (step demoProps (CloseEv 5 1006) atCeiling) \<noteq> Error"
  by (simp add: atCeiling_state hook_defs)

text \<open>
  C5, amended. When the retry counter has reached the ceiling and a socket closes with a
  code other than 4001 and 4003, the connection state becomes \<open>Disconnected\<close>, the
  diagnostic of giving up is recorded, and, no timeout being pending and no other socket
  connecting, no reconnect timeout is scheduled by this close nor by any run \<open>es\<close> of
  events that follows it: the list of timeouts stays as it was.
\<close>

theorem close_at_ceiling:
  assumes "MAX_RECONNECT_ATTEMPTS \<le> reconnectAttempts st"
    and "code \<noteq> 4001" and "code \<noteq> 4003"
    and "k < length (sockets st)" and "readyStateOf st k \<noteq> CLOSED"
    and "noPending st" and "noConnecting (setReadyState k CLOSED st)"
  shows "connectionState (step p (CloseEv k code) st) = Disconnected \<and>
         error (step p (CloseEv k code) st) =
           Some ''Connection failed after multiple attempts. Please refresh the page.'' \<and>
         timeouts (run p es (step p (CloseEv k code) st)) = timeouts st"
proof -
  let ?st1 = "setReadyState k CLOSED st"
  have s: "step p (CloseEv k code) st = onclose code ?st1" using assms(4,5) by simp
  have a: "MAX_RECONNECT_ATTEMPTS \<le> reconnectAttempts ?st1" using assms(1) by simp
  have g: "gaveUp ?st1" using assms(1,6,7) by (simp add: gaveUp_def noPending_def)
  have g': "gaveUp (onclose code ?st1)" and t: "timeouts (onclose code ?st1) = timeouts st"
    using onclose_gaveUp [OF g, of code] by simp_all
  have "timeouts (run p es (onclose code ?st1)) = timeouts st"
    using run_gaveUp [OF g', of p es] t by simp
  then show ?thesis
    using assms(2,3) unfolding s by (simp add: onclose_at_ceiling [OF a])
qed

theorem close_at_ceiling_witness:
  "MAX_RECONNECT_ATTEMPTS \<le> reconnectAttempts atCeiling \<and>
   noPending atCeiling \<and>
   connectionState (step demoProps (CloseEv 5 1006) atCeiling) = Disconnected \<and>
   error (step demoProps (CloseEv 5 1006) atCeiling) =
     Some ''Connection failed after multiple attempts. Please refresh the page.'' \<and>
   timeouts (run demoProps [TimeoutEv 4, ErrorEv 5, CloseEv 5 1006, OpenEv 5, IntervalEv 0]
      (step demoProps (CloseEv 5 1006) atCeiling)) = timeouts atCeiling"
proof -
  have a: "MAX_RECONNECT_ATTEMPTS \<le> reconnectAttempts atCeiling"
    by (simp add: atCeiling_state MAX_RECONNECT_ATTEMPTS_def)
  have c: "(1006::nat) \<noteq> 4001" "(1006::nat) \<noteq> 4003" by simp_all
  have k: "5 < length (sockets atCeiling)" by (simp add: atCeiling_state)
  have r: "readyStateOf atCeiling 5 \<noteq> CLOSED"
    by (simp add: atCeiling_state readyStateOf_def)
  have n: "noPending atCeiling" by (simp add: atCeiling_state noPending_def)
  have o: "noConnecting (setReadyState 5 CLOSED atCeiling)"
    by (simp add: atCeiling_state noConnecting_def setReadyState_def)
  show ?thesis
    using a n close_at_ceiling [OF a c k r n o, of demoProps
        "[TimeoutEv 4, ErrorEv 5, CloseEv 5 1006, OpenEv 5, IntervalEv 0]"]
    by simp
qed

text \<open>
  C6. A close with code 4001 or 4003 schedules no reconnect timeout, leaves the retry
  counter at its value, sets the diagnostic for the user, and leaves the connection state
  \<open>Disconnected\<close>.
\<close>

theorem onclose_rejection:
  assumes "code = 4001 \<or> code = 4003"
  shows "timeouts (onclose code st) = timeouts st \<and>
         reconnectTimeoutRef (onclose code st) = reconnectTimeoutRef st \<and>
         reconnectAttempts (onclose code st) = reconnectAttempts st \<and>
         error (onclose code st) =
           Some (if code = 4001 then ''Authentication failed. Please log in again.''
                 else ''Rate limit exceeded. Please slow down.'') \<and>
         connectionState (onclose code st) = Disconnected"
  using assms by (auto simp: onclose_def stopHeartbeat_def Let_def split: option.splits)

theorem onclose_rejection_witness:
  "timeouts (onclose 4003 reconnectingThenConnect) = timeouts reconnectingThenConnect \<and>
   reconnectAttempts (onclose 4003 reconnectingThenConnect) = 0 \<and>
   error (onclose 4003 reconnectingThenConnect) = Some ''Rate limit exceeded. Please slow down.'' \<and>
   connectionState (onclose 4003 reconnectingThenConnect) = Disconnected"
  using onclose_rejection [of 4003 reconnectingThenConnect]
  by (simp add: reconnectingThenConnect_state)

text \<open>
  C7, as the specification states it: two calls of \<^verbatim>\<open>connect\<close> in a row construct two
  sockets, both connecting; and a call of \<^verbatim>\<open>connect\<close> while a reconnect timeout is
  pending leaves the timeout pending, which then constructs a third socket beside the
  second.
\<close>

theorem connect_twice_two_live:
  "length (liveChannels (connect demoProps (connect demoProps initial))) = 2 \<and>
   timeouts reconnectingThenConnect = [Pending 1000] \<and>
   map readyState (sockets (step demoProps (TimeoutEv 0) reconnectingThenConnect)) =
     [CLOSED, CONNECTING, CONNECTING]"
  by (simp add: reconnectingThenConnect_state)
    (simp add: demoProps_def initial_def hook_defs liveChannels_def isLive_def)

text \<open>
  C7, amended. \<^verbatim>\<open>connect\<close> tears nothing down: it leaves the timeouts and the sockets
  constructed so far as they are, and does nothing at all when the current socket is open.
  The teardown is \<^verbatim>\<open>disconnect\<close>: it clears the handle, cancels the reconnect timeout,
  stops the heartbeat and closes the socket. When no socket but the current one is live,
  no channel is live after \<^verbatim>\<open>disconnect\<close>, and at most one after \<^verbatim>\<open>disconnect\<close> followed
  by \<^verbatim>\<open>connect\<close>.
\<close>

theorem connect_teardown:
  assumes "\<forall>k < length (sockets st). wsRef st \<noteq> Some k \<longrightarrow> \<not> isLive (sockets st ! k)"
  shows "timeouts (connect p st) = timeouts st \<and>
         take (length (sockets st)) (sockets (connect p st)) = sockets st \<and>
         (url p = Some u \<and> u \<noteq> [] \<and> currentOpen st \<longrightarrow> connect p st = st) \<and>
         wsRef (disconnect st) = None \<and>
         reconnectTimeoutRef (disconnect st) = None \<and>
         heartbeatIntervalRef (disconnect st) = None \<and>
         (reconnectTimeoutRef st = Some h \<and> h < length (timeouts st) \<longrightarrow>
            timeouts (disconnect st) ! h \<noteq> Pending d) \<and>
         liveChannels (disconnect st) = [] \<and>
         length (liveChannels (connect p (disconnect st))) \<le> 1"
proof -
  have l: "liveChannels (disconnect st) = []" using assms by (rule disconnect_no_live)
  have "length (liveChannels (connect p (disconnect st))) \<le> 1"
    using connect_live [of p "disconnect st"] by (simp add: l)
  moreover have "url p = Some u \<and> u \<noteq> [] \<and> currentOpen st \<longrightarrow> connect p st = st"
    by (simp add: connect_def)
  moreover have "wsRef (disconnect st) = None \<and> reconnectTimeoutRef (disconnect st) = None \<and>
      heartbeatIntervalRef (disconnect st) = None"
    by (simp add: disconnect_def Let_def setReadyState_def stopHeartbeat_def split: option.splits)
  ultimately show ?thesis
    using l connect_keeps [of p st] disconnect_timeout [of st h d] by blast
qed

theorem connect_teardown_witness:
  "timeouts (disconnect reconnectingThenConnect) ! 0 \<noteq> Pending 1000 \<and>
   wsRef (disconnect reconnectingThenConnect) = None \<and>
   liveChannels (disconnect reconnectingThenConnect) = [] \<and>
   length (liveChannels (connect demoProps (disconnect reconnectingThenConnect))) \<le> 1"
proof -
  have h: "\<forall>k < length (sockets reconnectingThenConnect).
      wsRef reconnectingThenConnect \<noteq> Some k \<longrightarrow> \<not> isLive (sockets reconnectingThenConnect ! k)"
    by (simp add: reconnectingThenConnect_state isLive_def less_Suc_eq numeral_2_eq_2)
  have t: "reconnectTimeoutRef reconnectingThenConnect = Some 0 \<and>
      0 < length (timeouts reconnectingThenConnect)"
    by (simp add: reconnectingThenConnect_state)
  show ?thesis
    using t connect_teardown [OF h, of demoProps "''x''" 0 1000] by blast
qed



text \<open>
  C10. \<^verbatim>\<open>sendMessage\<close> returns true exactly when the content passes the two checks and the
  current socket is open, and then the frame is transmitted. It returns false when the
  content is rejected, and then nothing is queued or transmitted, and also when the content
  is valid and the socket is not open, and then the frame is appended to the queue: the
  returned boolean is the same in these two cases.
\<close>

theorem sendMessage_result:
  "fst (sendMessage uuid isoNow cid c st) = (validOutbound c \<and> currentOpen st) \<and>
   (\<not> validOutbound c \<longrightarrow>
      messageQueue (snd (sendMessage uuid isoNow cid c st)) = messageQueue st \<and>
      wire (snd (sendMessage uuid isoNow cid c st)) = wire st) \<and>
   (validOutbound c \<and> \<not> currentOpen st \<longrightarrow>
      messageQueue (snd (sendMessage uuid isoNow cid c st)) =
        messageQueue st @ [messageStr uuid isoNow cid c] \<and>
      wire (snd (sendMessage uuid isoNow cid c st)) = wire st) \<and>
   (validOutbound c \<and> currentOpen st \<longrightarrow>
      messageQueue (snd (sendMessage uuid isoNow cid c st)) = messageQueue st \<and>
      (\<exists>k. wsRef st = Some k \<and>
         wire (snd (sendMessage uuid isoNow cid c st)) =
           wire st @ [(k, messageStr uuid isoNow cid c)]))"
  by (auto simp: sendMessage_def validOutbound_def currentOpen_def ws_send_def
      split: option.splits)

theorem sendMessage_result_witness:
  "\<not> validOutbound ''   '' \<and> validOutbound ''hello'' \<and> \<not> currentOpen initial \<and>
   fst (sendMessage ''u1'' ''t1'' ''42'' ''   '' initial) = False \<and>
   messageQueue (snd (sendMessage ''u1'' ''t1'' ''42'' ''   '' initial)) = [] \<and>
   fst (sendMessage ''u1'' ''t1'' ''42'' ''hello'' initial) = False \<and>
   messageQueue (snd (sendMessage ''u1'' ''t1'' ''42'' ''hello'' initial)) =
     [messageStr ''u1'' ''t1'' ''42'' ''hello'']"
proof -
  have r: "\<not> validOutbound ''   ''" by (simp add: validOutbound_def trim_examples)
  have v: "validOutbound ''hello''"
    by (simp add: validOutbound_def trim_examples MAX_MESSAGE_LENGTH_def)
  have o: "\<not> currentOpen initial" by (simp add: currentOpen_def initial_def)
  have q: "messageQueue initial = []" by (simp add: initial_def)
  show ?thesis
    using r v o q sendMessage_result [of "''u1''" "''t1''" "''42''" "''   ''" initial]
      sendMessage_result [of "''u1''" "''t1''" "''42''" "''hello''" initial]
    by simp
qed

end
